theory Spec2Isabelle
  imports Main "HOL-Library.Word" "HOL-Library.Signed_Division" "HOL-Library.AList"
begin

section \<open>Job data model (registry/api/v2/mirror.go)\<close>

text \<open>
  \<open>Phase\<close> is a Go string type with three named constants, \<open>Code\<close> a Go \<open>int\<close> type with
  seven. Both are open types in Go (any string, any int is a value), so they are kept
  open here. Codes are only ever compared, never computed with, so \<open>int\<close> stands for
  Go's \<open>int\<close>.
\<close>

type_synonym Phase = string

definition Pending :: Phase where "Pending = ''Pending''"
definition Mirroring :: Phase where "Mirroring = ''Mirroring''"
definition Mirrored :: Phase where "Mirrored = ''Mirrored''"

type_synonym Code = int

definition Success :: Code where "Success = 100"
definition NameInvalid :: Code where "NameInvalid = 101"
definition NameNotFound :: Code where "NameNotFound = 102"
definition TagInvalid :: Code where "TagInvalid = 103"
definition TagNotFound :: Code where "TagNotFound = 104"
definition Unknown :: Code where "Unknown = 105"
definition UnknownMediaType :: Code where "UnknownMediaType = 106"

text \<open>
  A digest is a string. \<open>Size\<close> is \<open>int64\<close>; \<open>Precent\<close> is Go's \<open>int\<close>, taken as 64 bits
  wide (the conversion \<open>int(...)\<close> of an \<open>int64\<close> is then the identity). An \<open>error\<close>
  value is its message, \<open>None\<close> is \<open>nil\<close>.
\<close>

type_synonym digest = string
type_synonym int64 = "64 word"

record Blob =
  Precent :: int64
  Size :: int64
  Error :: "string option"
  Speed :: string

record Image =
  Architecture :: string
  OS :: string
  Digest :: digest
  Blobs :: "digest \<rightharpoonup> Blob"

text \<open>
  \<open>Images\<close> is a slice of pointers and \<open>Blobs\<close> a map to pointers. Every \<open>Image\<close> and
  every \<open>Blob\<close> is allocated by \<open>MirrorImage\<close> and stored in exactly one place, so the
  objects are held by value. \<open>CreateTime\<close> is an instant in nanoseconds. \<open>named\<close> is the
  unexported field \<open>name\<close> (a \<open>reference.Named\<close>), kept as the string it prints as.
  The mutex \<open>mux\<close> appears in the interleaving model of \<open>IsPending\<close> below.
\<close>

record ImageMirror =
  Name :: string
  Tag :: string
  CreateTime :: int
  Phase :: Phase
  Message :: string
  Code :: Code
  Images :: "Image list"
  named :: string
  blobToImages :: "digest \<rightharpoonup> int"

definition NewImageMirror :: "string \<Rightarrow> string \<Rightarrow> int \<Rightarrow> ImageMirror" where
  "NewImageMirror nm tag now =
     \<lparr>Name = nm, Tag = tag, CreateTime = now, Phase = Pending, Message = [], Code = 0,
      Images = [], named = nm, blobToImages = Map.empty\<rparr>"

text \<open>\<open>IsPending\<close> as one caller running alone sees it: the result and the job after it.\<close>

definition IsPending :: "ImageMirror \<Rightarrow> bool \<times> ImageMirror" where
  "IsPending im =
     (let isPending = (Phase im = Pending)
      in (isPending, if isPending then im\<lparr>Phase := Mirroring\<rparr> else im))"

definition UpdateStatue :: "Code \<Rightarrow> string \<Rightarrow> ImageMirror \<Rightarrow> ImageMirror" where
  "UpdateStatue code message im =
     (let im1 = im\<lparr>Code := code\<rparr>
      in if message \<noteq> [] then im1\<lparr>Message := message\<rparr>
         else if code = NameInvalid then im1\<lparr>Message := ''repository name invalid''\<rparr>
         else if code = TagNotFound then im1\<lparr>Message := ''tag not found''\<rparr>
         else if code = Success then im1\<lparr>Message := ''mirror successed'', Phase := Mirrored\<rparr>
         else im1)"

text \<open>
  What a call does: return \<open>nil\<close>, return an error, or panic. Go's \<open>/\<close> on \<open>int64\<close>
  truncates towards zero and panics on a zero divisor; the product \<open>size * 100\<close> wraps.
  An index below zero panics at \<open>im.Images[idx]\<close>.
\<close>

datatype outcome = Nil | Err string | Panicked string

definition div64 :: "int64 \<Rightarrow> int64 \<Rightarrow> int64" where
  "div64 a b = word_of_int (sint a sdiv sint b)"

definition UpdateImagePrecent :: "digest \<Rightarrow> int64 \<Rightarrow> ImageMirror \<Rightarrow> outcome \<times> ImageMirror" where
  "UpdateImagePrecent dig sz im =
     (case blobToImages im dig of
        None \<Rightarrow> (Err (''ImageMirror '' @ named im @ '': not found digest '' @ dig), im)
      | Some idx \<Rightarrow>
          if idx \<ge> int (length (Images im)) then
            (Err (''ImageMirror '' @ named im @ '': digest '' @ dig
                  @ '' found images index lager than len(im.Images)''), im)
          else if idx < 0 then (Panicked ''index out of range'', im)
          else
            (case Blobs (Images im ! nat idx) dig of
               None \<Rightarrow>
                 (Err (''ImageMirror '' @ named im @ '': not found image layer for digest '' @ dig), im)
             | Some layer \<Rightarrow>
                 if Size layer = 0 then (Panicked ''integer divide by zero'', im)
                 else
                   (Nil,
                    im\<lparr>Images := (Images im)
                       [nat idx := (Images im ! nat idx)
                          \<lparr>Blobs := (Blobs (Images im ! nat idx))
                             (dig \<mapsto> layer\<lparr>Precent := div64 (sz * 100) (Size layer)\<rparr>)\<rparr>]\<rparr>)))"


section \<open>Job registry and eviction sweep (registry/proxy/proxymirror.go)\<close>

text \<open>
  The registry maps a key to a pointer to a job, and the same job is reached from the
  registry, from callers and from the transfer run. So jobs live in a store \<open>objs\<close>
  indexed by address, and \<open>fresh\<close> is the next address an allocation hands out. The Go
  map \<open>mirrors\<close> is an association list: \<open>map_of\<close> is the lookup, \<open>AList.update\<close> the
  assignment \<open>c.mirrors[ref] = im\<close>, \<open>AList.delete\<close> the built-in \<open>delete\<close>, and the
  order of the list is the order in which a \<open>range\<close> loop happens to visit the map.
\<close>

type_synonym addr = nat

record MirrorController =
  mirrors :: "(string \<times> addr) list"
  objs :: "addr \<Rightarrow> ImageMirror"
  fresh :: addr

text \<open>\<open>v2.NewImageMirror(name, tag)\<close> as an allocation; \<open>now\<close> is what \<open>time.Now()\<close> reads.\<close>

definition alloc_ImageMirror ::
  "string \<Rightarrow> string \<Rightarrow> int \<Rightarrow> MirrorController \<Rightarrow> addr \<times> MirrorController" where
  "alloc_ImageMirror nm tag now c =
     (fresh c, c\<lparr>objs := (objs c)(fresh c := NewImageMirror nm tag now), fresh := Suc (fresh c)\<rparr>)"

text \<open>
  \<open>getim\<close> in its three steps: the lookup under the read lock, the allocation, and the
  second look with the insertion under the write lock. Other callers may run between the
  steps, so the last step is a function of whatever the registry holds when the write
  lock is taken. \<open>getim\<close> is the three steps run by one caller without interruption.
\<close>

definition getim_rlocked :: "MirrorController \<Rightarrow> string \<Rightarrow> addr option" where
  "getim_rlocked c ref = map_of (mirrors c) ref"

definition getim_locked :: "MirrorController \<Rightarrow> string \<Rightarrow> addr \<Rightarrow> addr \<times> MirrorController" where
  "getim_locked c ref im =
     (case map_of (mirrors c) ref of
        None \<Rightarrow> (im, c\<lparr>mirrors := AList.update ref im (mirrors c)\<rparr>)
      | Some im' \<Rightarrow> (im', c))"

definition getim :: "MirrorController \<Rightarrow> string \<Rightarrow> string \<Rightarrow> int \<Rightarrow> addr \<times> MirrorController" where
  "getim c nm tag now =
     (let ref = nm @ '':'' @ tag
      in case getim_rlocked c ref of
           Some im \<Rightarrow> (im, c)
         | None \<Rightarrow>
             (let (im, c1) = alloc_ImageMirror nm tag now c
              in getim_locked c1 ref im))"

definition delim :: "MirrorController \<Rightarrow> string \<Rightarrow> MirrorController" where
  "delim c ref = c\<lparr>mirrors := AList.delete ref (mirrors c)\<rparr>"

definition DeleteMirrorImage :: "MirrorController \<Rightarrow> string \<Rightarrow> string \<Rightarrow> MirrorController" where
  "DeleteMirrorImage c nm tag = delim c (nm @ '':'' @ tag)"

text \<open>
  The controller's \<open>MirrorImage\<close>, one caller alone: the job's address, whether
  \<open>go c.mirrorimages(im)\<close> was started, and the controller afterwards.
\<close>

definition MirrorController_MirrorImage ::
  "MirrorController \<Rightarrow> string \<Rightarrow> string \<Rightarrow> int \<Rightarrow> addr \<times> bool \<times> MirrorController" where
  "MirrorController_MirrorImage c nm tag now =
     (let (im, c1) = getim c nm tag now;
          (isPending, job') = IsPending (objs c1 im)
      in (im, isPending, c1\<lparr>objs := (objs c1)(im := job')\<rparr>))"

text \<open>
  One tick of \<open>gc\<close> (the \<open>ticker.C\<close> branch). Instants and durations are nanoseconds;
  \<open>t.After(u)\<close> is \<open>u < t\<close>.
\<close>

definition Hour :: int where
  "Hour = 3600 * 1000000000"

definition After :: "int \<Rightarrow> int \<Rightarrow> bool" where
  "After t u = (u < t)"

definition gc_tick :: "int \<Rightarrow> MirrorController \<Rightarrow> MirrorController" where
  "gc_tick now c =
     (let t = now + (- 7 * 24 * Hour);
          needDeleted =
            fold (\<lambda>(ref, im) acc.
                    if Phase (objs c im) = Mirrored \<and> After t (CreateTime (objs c im))
                    then acc @ [ref] else acc)
                 (mirrors c) []
      in c\<lparr>mirrors := fold AList.delete needDeleted (mirrors c)\<rparr>)"

text \<open>
  The loop of \<open>gc\<close>. Each turn of the \<open>for\<close> blocks in \<open>select\<close> until one of the two
  channels is ready; the list gives, turn by turn, which branch ran (and the time the
  tick branch read). \<open>break\<close> in the \<open>ctx.Done()\<close> branch leaves the \<open>select\<close> statement
  and the \<open>for\<close> goes on to its next turn. The function body has no \<open>return\<close>. \<open>InLoop\<close>
  is the loop waiting in \<open>select\<close> with the branches so far consumed.
\<close>

datatype gc_select = TickerC int | CtxDone

datatype gc_status = InLoop MirrorController | GcReturned MirrorController

fun gc :: "gc_select list \<Rightarrow> MirrorController \<Rightarrow> gc_status" where
  "gc [] c = InLoop c"
| "gc (TickerC now # evs) c = gc evs (gc_tick now c)"
| "gc (CtxDone # evs) c = gc evs c"

section \<open>\<open>IsPending\<close> under interleaving\<close>

text \<open>
  The statements of \<open>IsPending\<close>, one step each, for callers that share one job:
  \<open>im.mux.Lock()\<close> (blocked while another caller holds the mutex), \<open>im.mux.Unlock()\<close>,
  the read \<open>isPending := im.Phase == Pending\<close>, and \<open>if isPending { im.Phase = Mirroring }\<close>
  followed by the return. The shared state is the mutex (held or not) and the job.
\<close>

datatype caller = AtLock | AtUnlock | AtRead | AtWrite bool | Returned bool

fun IsPending_step :: "caller \<Rightarrow> bool \<times> ImageMirror \<Rightarrow> (caller \<times> bool \<times> ImageMirror) option" where
  "IsPending_step AtLock (held, im) = (if held then None else Some (AtUnlock, True, im))"
| "IsPending_step AtUnlock (held, im) = Some (AtRead, False, im)"
| "IsPending_step AtRead (held, im) = Some (AtWrite (Phase im = Pending), held, im)"
| "IsPending_step (AtWrite isPending) (held, im) =
     Some (Returned isPending, held, if isPending then im\<lparr>Phase := Mirroring\<rparr> else im)"
| "IsPending_step (Returned isPending) (held, im) = None"

text \<open>
  A schedule names, step by step, the caller that moves next. A caller that cannot move
  (blocked on the mutex, or returned) leaves everything as it is.
\<close>

fun interleave :: "nat list \<Rightarrow> caller list \<times> bool \<times> ImageMirror \<Rightarrow> caller list \<times> bool \<times> ImageMirror" where
  "interleave [] s = s"
| "interleave (i # sched) (callers, shared) =
     (if i < length callers then
        (case IsPending_step (callers ! i) shared of
           None \<Rightarrow> interleave sched (callers, shared)
         | Some (pc, shared') \<Rightarrow> interleave sched (callers[i := pc], shared'))
      else interleave sched (callers, shared))"


section \<open>Transfer run (\<open>MirrorImage\<close> in mirror.go, \<open>mirrorimages\<close> in proxymirror.go)\<close>

text \<open>
  Descriptors and manifests come from packages outside these sources; they carry the
  fields the run reads. A manifest is either a \<open>*manifestlist.DeserializedManifestList\<close>
  (with its \<open>Manifests\<close>) or of some other dynamic type; in both cases the first
  argument is what its method \<open>References()\<close> returns.
\<close>

record Platform =
  Platform_Architecture :: string
  Platform_OS :: string

record Descriptor =
  MediaType :: string
  Desc_Digest :: digest
  Desc_Size :: int64
  Desc_Platform :: "Platform option"

record ManifestDescriptor =
  MD_Descriptor :: Descriptor
  MD_Platform :: Platform

datatype Manifest =
    OtherManifest "Descriptor list"
  | DeserializedManifestList "Descriptor list" "ManifestDescriptor list"

fun References :: "Manifest \<Rightarrow> Descriptor list" where
  "References (OtherManifest refs) = refs"
| "References (DeserializedManifestList refs manifests) = refs"

text \<open>
  The remote and the local store answer through \<open>Env\<close>: for each call of the run, the
  error it returns (\<open>None\<close> for \<open>nil\<close>) or its value. A call answers the same way each
  time it is made with the same argument. \<open>embedded_Repository\<close> gives both results of
  \<open>c.embedded.Repository\<close>: whether the handle can take a method call (\<open>False\<close> for a nil
  handle) and the error.
\<close>

record Env =
  client_NewRepository :: "string option"
  repo_Manifests :: "string option"
  embedded_Repository :: "bool \<times> string option"
  localrepo_Manifests :: "string option"
  repo_Tags_Get :: "string \<Rightarrow> string + Descriptor"
  localManifestService_Get :: "digest \<Rightarrow> string + Manifest"
  manifestService_Get :: "digest \<Rightarrow> string + Manifest"
  localrepo_Blobs_Stat :: "digest \<Rightarrow> string option"
  repo_Blobs_Get :: "digest \<Rightarrow> string option"

text \<open>
  The run is followed by the list of what it did, in program order: the calls on the
  stores, each \<open>go\<close> statement that starts a blob fetch, \<open>wg.Wait()\<close>, and each
  \<open>UpdateStatue\<close>.
\<close>

datatype event =
    CallNewRepository
  | CallRepoManifests
  | CallEmbeddedRepository
  | CallLocalManifests
  | CallTagsGet string
  | CallLocalManifestGet digest
  | CallManifestGet digest
  | CallBlobStat digest
  | GoBlobGet digest
  | WgWait
  | Status Code string

definition recognized :: "string \<Rightarrow> bool" where
  "recognized mt \<longleftrightarrow>
     mt = ''application/vnd.docker.container.image.v1+json''
   \<or> mt = ''application/vnd.oci.image.config.v1+json''
   \<or> mt = ''application/vnd.docker.image.rootfs.diff.tar.gzip''
   \<or> mt = ''application/vnd.in-toto+json''
   \<or> mt = ''application/vnd.oci.image.layer.v1.tar+gzip''"

text \<open>
  The loop of \<open>MirrorImage\<close> over \<open>manifest.References()\<close>. Its state is the image under
  construction, \<open>blobToImages\<close>, the digests for which a fetch task was started, and the
  events. \<open>idx\<close> is \<open>len(im.Images) - 1\<close>. The \<open>default\<close> branch returns out of the
  function from inside the loop.
\<close>

record fanout =
  fo_img :: Image
  fo_blobToImages :: "digest \<rightharpoonup> int"
  fo_launched :: "digest list"
  fo_trace :: "event list"

fun sync_refs :: "Env \<Rightarrow> int \<Rightarrow> Descriptor list \<Rightarrow> fanout \<Rightarrow> string option \<times> fanout" where
  "sync_refs env idx [] s = (None, s)"
| "sync_refs env idx (d # descs) s =
     (if recognized (MediaType d) then
        (let blob = \<lparr>Precent = 100, Size = Desc_Size d, Error = None, Speed = []\<rparr>;
             s1 = s\<lparr>fo_img := (fo_img s)\<lparr>Blobs := (Blobs (fo_img s))(Desc_Digest d \<mapsto> blob)\<rparr>,
                    fo_trace := fo_trace s @ [CallBlobStat (Desc_Digest d)]\<rparr>
         in case localrepo_Blobs_Stat env (Desc_Digest d) of
              None \<Rightarrow> sync_refs env idx descs s1
            | Some err \<Rightarrow>
                sync_refs env idx descs
                  (s1\<lparr>fo_blobToImages := (fo_blobToImages s1)(Desc_Digest d \<mapsto> idx),
                      fo_img := (fo_img s1)
                        \<lparr>Blobs := (Blobs (fo_img s1))(Desc_Digest d \<mapsto> blob\<lparr>Precent := 0\<rparr>)\<rparr>,
                      fo_launched := fo_launched s1 @ [Desc_Digest d],
                      fo_trace := fo_trace s1 @ [GoBlobGet (Desc_Digest d)]\<rparr>))
      else (Some (''unknown mediatype '' @ MediaType d), s))"

text \<open>
  \<open>wg.Wait()\<close>: every started task has run to its end. A task whose \<open>Get\<close> fails writes
  the error into its blob (the entry was stored just before the task was started) and
  sets \<open>getBlobError\<close>. Progress reports that the client may send while a blob streams
  in are not made by this code and are left out.
\<close>

definition wg_Wait :: "Env \<Rightarrow> digest list \<Rightarrow> Image \<Rightarrow> bool \<times> Image" where
  "wg_Wait env launched img =
     fold (\<lambda>dgst (getBlobError, img).
             case repo_Blobs_Get env dgst of
               None \<Rightarrow> (getBlobError, img)
             | Some err \<Rightarrow>
                 (True, img\<lparr>Blobs := (Blobs img)
                    (dgst := map_option (\<lambda>b. b\<lparr>Error := Some err\<rparr>) (Blobs img dgst))\<rparr>))
          launched (False, img)"

text \<open>
  What \<open>MirrorImage\<close> hands back: the error it returns, the job, the events, and the
  fetch tasks it started and has not waited for when it returns. On the return from
  inside the loop the job is as the loop left it; what the tasks still running write
  later is not part of it.
\<close>

record sync =
  sync_err :: "string option"
  sync_job :: ImageMirror
  sync_trace :: "event list"
  sync_unjoined :: "digest list"

definition MirrorImage :: "Env \<Rightarrow> Descriptor \<Rightarrow> Manifest \<Rightarrow> ImageMirror \<Rightarrow> sync" where
  "MirrorImage env desc manifest im =
     (let img = \<lparr>Architecture = (case Desc_Platform desc of None \<Rightarrow> [] | Some p \<Rightarrow> Platform_Architecture p),
                 OS = (case Desc_Platform desc of None \<Rightarrow> [] | Some p \<Rightarrow> Platform_OS p),
                 Digest = Desc_Digest desc,
                 Blobs = Map.empty\<rparr>;
          idx = int (length (Images im @ [img])) - 1;
          (err, s) = sync_refs env idx (References manifest)
                       \<lparr>fo_img = img, fo_blobToImages = blobToImages im,
                        fo_launched = [], fo_trace = []\<rparr>
      in case err of
           Some e \<Rightarrow>
             \<lparr>sync_err = Some e,
              sync_job = im\<lparr>Images := Images im @ [fo_img s], blobToImages := fo_blobToImages s\<rparr>,
              sync_trace = fo_trace s,
              sync_unjoined = fo_launched s\<rparr>
         | None \<Rightarrow>
             (let (getBlobError, img') = wg_Wait env (fo_launched s) (fo_img s)
              in \<lparr>sync_err = (if getBlobError then Some ''download blob error'' else None),
                  sync_job = im\<lparr>Images := Images im @ [img'], blobToImages := fo_blobToImages s\<rparr>,
                  sync_trace = fo_trace s @ [WgWait],
                  sync_unjoined = []\<rparr>))"

text \<open>
  A transfer run: the job, the events so far, the fetch tasks started and never waited
  for, and how the run stands: still going, returned, or ended by a panic.
\<close>

datatype ending = Running | Return | Panic string

record run =
  job :: ImageMirror
  trace :: "event list"
  unjoined :: "digest list"
  ending :: ending

definition call :: "event \<Rightarrow> run \<Rightarrow> run" where
  "call e r = r\<lparr>trace := trace r @ [e]\<rparr>"

definition status :: "Code \<Rightarrow> string \<Rightarrow> run \<Rightarrow> run" where
  "status code message r =
     r\<lparr>job := UpdateStatue code message (job r), trace := trace r @ [Status code message]\<rparr>"

text \<open>\<open>im.UpdateStatue(code, message)\<close> followed by \<open>return\<close>.\<close>

definition stop :: "Code \<Rightarrow> string \<Rightarrow> run \<Rightarrow> run" where
  "stop code message r = (status code message r)\<lparr>ending := Return\<rparr>"

definition after_sync :: "sync \<Rightarrow> run \<Rightarrow> run" where
  "after_sync s r =
     r\<lparr>job := sync_job s, trace := trace r @ sync_trace s, unjoined := unjoined r @ sync_unjoined s\<rparr>"

text \<open>The loop over \<open>descs.Manifests\<close> in the image-index branch (lines 205 to 227).\<close>

fun mirror_manifests :: "Env \<Rightarrow> ManifestDescriptor list \<Rightarrow> run \<Rightarrow> run" where
  "mirror_manifests env [] r = r"
| "mirror_manifests env (md # mds) r =
     (let d = (MD_Descriptor md)
                \<lparr>Desc_Platform := Some \<lparr>Platform_Architecture = Platform_Architecture (MD_Platform md),
                                        Platform_OS = Platform_OS (MD_Platform md)\<rparr>\<rparr>
      in if MediaType d = ''application/vnd.oci.image.manifest.v1+json'' then
           (case manifestService_Get env (Desc_Digest d) of
              Inl err \<Rightarrow>
                stop Unknown (''get manifests error: '' @ err) (call (CallManifestGet (Desc_Digest d)) r)
            | Inr m \<Rightarrow>
                (let s = MirrorImage env d m (job r);
                     r1 = after_sync s (call (CallManifestGet (Desc_Digest d)) r)
                 in case sync_err s of
                      Some err \<Rightarrow> stop Unknown (''mirror image blobs error: '' @ err) r1
                    | None \<Rightarrow> mirror_manifests env mds r1))
         else stop UnknownMediaType (''unknown mediatype: '' @ MediaType d) r)"

text \<open>
  \<open>mirrorimages\<close> from line 164 on (the authentication set-up before it is outside these
  sources), in two parts. \<open>acquire\<close> is lines 164 to 195: it ends the run, or it yields
  the tag's descriptor and the manifest. A method call on a nil handle panics.
\<close>

definition acquire :: "Env \<Rightarrow> ImageMirror \<Rightarrow> run \<times> (Descriptor \<times> Manifest) option" where
  "acquire env im =
     (let r1 = call CallNewRepository \<lparr>job = im, trace = [], unjoined = [], ending = Running\<rparr>
      in case client_NewRepository env of
           Some err \<Rightarrow> (stop NameInvalid (''get registry repository error: '' @ err) r1, None)
         | None \<Rightarrow>
        (let r2 = call CallRepoManifests r1
         in case repo_Manifests env of
              Some err \<Rightarrow> (stop Unknown (''create manifests service error: '' @ err) r2, None)
            | None \<Rightarrow>
        (let r3 = call CallEmbeddedRepository r2;
             (localrepo, lerr) = embedded_Repository env;
             r4 = (case lerr of
                     Some err \<Rightarrow> status Unknown (''get local repository error: '' @ err) r3
                   | None \<Rightarrow> r3);
             r5 = call CallLocalManifests r4
         in if \<not> localrepo then (r5\<lparr>ending := Panic ''nil pointer dereference''\<rparr>, None)
            else case localrepo_Manifests env of
              Some err \<Rightarrow> (stop Unknown (''create local manifests service error: '' @ err) r5, None)
            | None \<Rightarrow>
        (let r6 = call (CallTagsGet (Tag (job r5))) r5
         in case repo_Tags_Get env (Tag (job r5)) of
              Inl err \<Rightarrow> (stop TagNotFound [] r6, None)
            | Inr desc \<Rightarrow>
        (let r7 = call (CallLocalManifestGet (Desc_Digest desc)) r6
         in case localManifestService_Get env (Desc_Digest desc) of
              Inl err \<Rightarrow> (stop Unknown (''get manifests error: '' @ err) r7, None)
            | Inr manifest \<Rightarrow> (r7, Some (desc, manifest)))))))"

text \<open>
  Lines 197 to 233: the switch on the descriptor's media type and the final
  \<open>UpdateStatue(Success, "")\<close>. The type assertion on the manifest panics when the
  manifest is not a manifest list.
\<close>

definition mirrorimages :: "Env \<Rightarrow> ImageMirror \<Rightarrow> run" where
  "mirrorimages env im =
     (case acquire env im of
        (r, None) \<Rightarrow> r
      | (r, Some (desc, manifest)) \<Rightarrow>
          if MediaType desc = ''application/vnd.docker.distribution.manifest.v2+json'' then
            (let s = MirrorImage env desc manifest (job r);
                 r1 = after_sync s r;
                 r2 = (case sync_err s of
                         Some err \<Rightarrow> status Unknown (''mirror image blobs error: '' @ err) r1
                       | None \<Rightarrow> r1)
             in stop Success [] r2)
          else if MediaType desc = ''application/vnd.oci.image.index.v1+json'' then
            (case manifest of
               DeserializedManifestList refs manifests \<Rightarrow>
                 (let r1 = mirror_manifests env manifests r
                  in if ending r1 = Running then stop Success [] r1 else r1)
             | OtherManifest refs \<Rightarrow> r\<lparr>ending := Panic ''interface conversion''\<rparr>)
          else stop UnknownMediaType (''unknown mediatype: '' @ MediaType desc) r)"

text \<open>
  The events that one recognized reference leaves in \<open>MirrorImage\<close>: the \<open>Stat\<close> on the
  local store and, when that fails, the start of the fetch task.
\<close>

definition ref_events :: "Env \<Rightarrow> Descriptor \<Rightarrow> event list" where
  "ref_events env d =
     (case localrepo_Blobs_Stat env (Desc_Digest d) of
        None \<Rightarrow> [CallBlobStat (Desc_Digest d)]
      | Some err \<Rightarrow> [CallBlobStat (Desc_Digest d), GoBlobGet (Desc_Digest d)])"

section \<open>Example inputs\<close>

text \<open>A job in transfer with one image and one tracked blob of 1000 bytes.\<close>

definition demo_blob :: Blob where
  "demo_blob = \<lparr>Precent = 0, Size = 1000, Error = None, Speed = []\<rparr>"

definition demo_image :: Image where
  "demo_image = \<lparr>Architecture = ''amd64'', OS = ''linux'', Digest = ''sha256:m'',
                  Blobs = [''sha256:a'' \<mapsto> demo_blob]\<rparr>"

definition demo_job :: ImageMirror where
  "demo_job = (NewImageMirror ''library/app'' ''v1'' 0)
                \<lparr>Phase := Mirroring, Images := [demo_image], blobToImages := [''sha256:a'' \<mapsto> 0]\<rparr>"

text \<open>
  A registry with three jobs, all created at instant 0: one mirrored, one still in
  transfer, one mirrored but created at instant 5.
\<close>

definition demo_objs :: "addr \<Rightarrow> ImageMirror" where
  "demo_objs a =
     (if a = 0 then (NewImageMirror ''library/app'' ''v1'' 0)\<lparr>Phase := Mirrored\<rparr>
      else if a = 1 then (NewImageMirror ''library/db'' ''v2'' 0)\<lparr>Phase := Mirroring\<rparr>
      else (NewImageMirror ''library/web'' ''v3'' 5)\<lparr>Phase := Mirrored\<rparr>)"

definition demo_controller :: MirrorController where
  "demo_controller =
     \<lparr>mirrors = [(''library/app:v1'', 0), (''library/db:v2'', 1), (''library/web:v3'', 2)],
      objs = demo_objs, fresh = 3\<rparr>"

definition demo_controller_new :: MirrorController where
  "demo_controller_new =
     \<lparr>mirrors = [(''library/app:v1'', 0), (''library/db:v2'', 1), (''library/web:v3'', 2),
                 (''library/new:v1'', 3)],
      objs = demo_objs(3 := NewImageMirror ''library/new'' ''v1'' 9), fresh = 4\<rparr>"

text \<open>
  A remote image whose manifest lists a layer, then a reference of a media type that is
  not recognized, then another layer; no blob is in the local store. The tag resolves
  to \<open>demo_desc mt\<close>, a descriptor of media type \<open>mt\<close>, and the manifest found under it
  locally is \<open>demo_list\<close>, an index with this one image.
\<close>

definition demo_layer :: "digest \<Rightarrow> Descriptor" where
  "demo_layer dg =
     \<lparr>MediaType = ''application/vnd.docker.image.rootfs.diff.tar.gzip'', Desc_Digest = dg,
      Desc_Size = 1000, Desc_Platform = None\<rparr>"

definition demo_bad :: Descriptor where
  "demo_bad =
     \<lparr>MediaType = ''application/x-unknown'', Desc_Digest = ''sha256:x'',
      Desc_Size = 10, Desc_Platform = None\<rparr>"

definition demo_manifest :: Manifest where
  "demo_manifest = OtherManifest [demo_layer ''sha256:a'', demo_bad, demo_layer ''sha256:b'']"

definition demo_desc :: "string \<Rightarrow> Descriptor" where
  "demo_desc mt = \<lparr>MediaType = mt, Desc_Digest = ''sha256:top'', Desc_Size = 500, Desc_Platform = None\<rparr>"

definition demo_md :: ManifestDescriptor where
  "demo_md =
     \<lparr>MD_Descriptor =
        \<lparr>MediaType = ''application/vnd.oci.image.manifest.v1+json'', Desc_Digest = ''sha256:m'',
         Desc_Size = 400, Desc_Platform = None\<rparr>,
      MD_Platform = \<lparr>Platform_Architecture = ''amd64'', Platform_OS = ''linux''\<rparr>\<rparr>"

definition demo_list :: Manifest where
  "demo_list = DeserializedManifestList [MD_Descriptor demo_md] [demo_md]"

definition demo_env :: "string \<Rightarrow> Manifest \<Rightarrow> bool \<times> string option \<Rightarrow> Env" where
  "demo_env mt local_manifest local_repo =
     \<lparr>client_NewRepository = None,
      repo_Manifests = None,
      embedded_Repository = local_repo,
      localrepo_Manifests = None,
      repo_Tags_Get = (\<lambda>tag. Inr (demo_desc mt)),
      localManifestService_Get = (\<lambda>dg. Inr local_manifest),
      manifestService_Get = (\<lambda>dg. Inr demo_manifest),
      localrepo_Blobs_Stat = (\<lambda>dg. Some ''blob unknown to registry''),
      repo_Blobs_Get = (\<lambda>dg. None)\<rparr>"

definition claimed_job :: ImageMirror where
  "claimed_job = (NewImageMirror ''library/app'' ''v1'' 0)\<lparr>Phase := Mirroring\<rparr>"

section \<open>Properties of the job\<close>

lemmas Phase_defs = Pending_def Mirroring_def Mirrored_def

lemmas Code_defs = Success_def NameInvalid_def NameNotFound_def TagInvalid_def
  TagNotFound_def Unknown_def UnknownMediaType_def

lemmas demo_defs = demo_blob_def demo_image_def demo_job_def NewImageMirror_def

subsection \<open>\<open>UpdateStatue\<close>\<close>

text \<open>
  C9. For every code \<open>c\<close> and every non-empty message \<open>m\<close>, \<open>UpdateStatue c m\<close> sets
  \<open>Code\<close> to \<open>c\<close> and \<open>Message\<close> to \<open>m\<close> and changes nothing else, \<open>Phase\<close> included, so
  \<open>UpdateStatue Success m\<close> does not move the job to \<open>Mirrored\<close>. A job that is not
  \<open>Mirrored\<close> becomes \<open>Mirrored\<close> by \<open>UpdateStatue c' m'\<close> exactly when \<open>c'\<close> is \<open>Success\<close>
  and \<open>m'\<close> is empty.
\<close>

theorem UpdateStatue_message_frame:
  assumes "m \<noteq> []"
  shows "UpdateStatue c m im = im\<lparr>Code := c, Message := m\<rparr>
       \<and> Phase (UpdateStatue c m im) = Phase im
       \<and> (\<forall>c' m'. Phase im \<noteq> Mirrored \<longrightarrow>
             (Phase (UpdateStatue c' m' im) = Mirrored \<longleftrightarrow> c' = Success \<and> m' = []))"
proof (intro conjI allI impI)
  show "UpdateStatue c m im = im\<lparr>Code := c, Message := m\<rparr>"
    using assms by (simp add: UpdateStatue_def)
  then show "Phase (UpdateStatue c m im) = Phase im"
    by simp
next
  fix c' m'
  assume "Phase im \<noteq> Mirrored"
  then show "Phase (UpdateStatue c' m' im) = Mirrored \<longleftrightarrow> c' = Success \<and> m' = []"
    by (simp add: UpdateStatue_def Let_def Code_defs)
qed

theorem UpdateStatue_message_frame_witness:
  "''done'' \<noteq> []
   \<and> UpdateStatue Success ''done'' demo_job = demo_job\<lparr>Code := Success, Message := ''done''\<rparr>
   \<and> Phase (UpdateStatue Success ''done'' demo_job) = Mirroring
   \<and> Phase demo_job \<noteq> Mirrored
   \<and> Phase (UpdateStatue Success [] demo_job) = Mirrored
   \<and> Phase (UpdateStatue Unknown [] demo_job) \<noteq> Mirrored"
proof -
  have h: "''done'' \<noteq> []" by simp
  have p: "Phase demo_job = Mirroring" "Phase demo_job \<noteq> Mirrored"
    by (simp_all add: demo_defs Phase_defs)
  have u: "Unknown \<noteq> Success" by (simp add: Code_defs)
  from UpdateStatue_message_frame [OF h, of Success demo_job] p u
  show ?thesis by simp
qed

subsection \<open>\<open>UpdateImagePrecent\<close>\<close>

lemma sint_times_100:
  fixes r :: int64
  assumes "0 \<le> sint r" "sint r * 100 < 2 ^ 63"
  shows "sint (r * 100) = sint r * 100"
proof -
  have "sint (r * 100) = signed_take_bit 63 (sint r * 100)"
    by (simp add: sint_word_mult)
  also have "\<dots> = sint r * 100"
    using assms by (intro signed_take_bit_int_eq_self) auto
  finally show ?thesis .
qed

lemma sint_word_of_int_small:
  assumes "0 \<le> k" "k < 2 ^ 63"
  shows "sint (word_of_int k :: int64) = k"
  using assms by (simp add: sint_sbintrunc' signed_take_bit_int_eq_self)

lemma sdiv_nonneg: "0 \<le> x \<Longrightarrow> 0 < y \<Longrightarrow> x sdiv y = (x::int) div y"
  by (simp add: signed_divide_int_def sgn_if)

lemma div64_percent:
  fixes r s :: int64
  assumes "0 < sint s" "0 \<le> sint r" "sint r * 100 < 2 ^ 63"
  shows "sint (div64 (r * 100) s) = (sint r * 100) div sint s"
proof -
  have m: "sint (r * 100) = sint r * 100" using assms by (simp add: sint_times_100)
  have q: "sint (r * 100) sdiv sint s = (sint r * 100) div sint s"
    using assms by (simp add: m sdiv_nonneg)
  have lo: "0 \<le> (sint r * 100) div sint s" using assms by (simp add: pos_imp_zdiv_nonneg_iff)
  have "(sint r * 100) div sint s \<le> (sint r * 100) div 1"
    using assms by (intro zdiv_mono2) auto
  then have hi: "(sint r * 100) div sint s < 2 ^ 63" using assms by simp
  show ?thesis unfolding div64_def q using lo hi by (rule sint_word_of_int_small)
qed

lemma percent_le_100: "0 < (s::int) \<Longrightarrow> r \<le> s \<Longrightarrow> r * 100 div s \<le> 100"
proof -
  assume a: "0 < s" "r \<le> s"
  then have "r * 100 \<le> 100 * s" by simp
  then have "r * 100 div s \<le> 100 * s div s" by (rule zdiv_mono1) (use a in simp)
  then show ?thesis using a by simp
qed


lemma UpdateImagePrecent_demo:
  "UpdateImagePrecent ''sha256:a'' sz demo_job =
     (Nil, demo_job\<lparr>Images := [demo_image\<lparr>Blobs := [''sha256:a'' \<mapsto> demo_blob\<lparr>Precent := div64 (sz * 100) 1000\<rparr>]\<rparr>]\<rparr>)"
  by (simp add: UpdateImagePrecent_def demo_defs)

lemma div64_demo: "sint (div64 25000 1000) = 25" "sint (div64 200000 1000) = 200"
  by (simp_all add: div64_def sdiv_nonneg)

text \<open>
  C5, as the code has it. An update of a tracked blob (the digest is in \<open>blobToImages\<close>
  with an index inside \<open>Images\<close>, and that image's blob map has the digest) of declared
  size greater than 0 returns \<open>nil\<close>: the division is well-defined. When \<open>receivedBytes\<close>
  is not negative and \<open>receivedBytes * 100\<close> is within \<open>int64\<close>, it stores
  \<open>floor (receivedBytes * 100 / size)\<close>, which is not negative; that is at most 100 when
  \<open>receivedBytes\<close> is at most the size.
\<close>

theorem UpdateImagePrecent_percent:
  assumes idx: "blobToImages im dig = Some idx"
      and lo: "0 \<le> idx"
      and hi: "idx < int (length (Images im))"
      and layer: "Blobs (Images im ! nat idx) dig = Some layer"
      and size: "0 < sint (Size layer)"
  shows "\<exists>im' layer'.
           UpdateImagePrecent dig receivedBytes im = (Nil, im')
         \<and> Blobs (Images im' ! nat idx) dig = Some layer'
         \<and> (0 \<le> sint receivedBytes \<and> sint receivedBytes * 100 < 2 ^ 63 \<longrightarrow>
              sint (Precent layer') = (sint receivedBytes * 100) div sint (Size layer)
            \<and> 0 \<le> sint (Precent layer')
            \<and> (sint receivedBytes \<le> sint (Size layer) \<longrightarrow> sint (Precent layer') \<le> 100))"
proof -
  let ?l = "layer\<lparr>Precent := div64 (receivedBytes * 100) (Size layer)\<rparr>"
  let ?im = "im\<lparr>Images := (Images im)
                 [nat idx := (Images im ! nat idx)
                    \<lparr>Blobs := (Blobs (Images im ! nat idx))(dig \<mapsto> ?l)\<rparr>]\<rparr>"
  from size have nz: "Size layer \<noteq> 0" by auto
  have ok: "UpdateImagePrecent dig receivedBytes im = (Nil, ?im)"
    using idx lo hi layer nz by (simp add: UpdateImagePrecent_def)
  have b: "Blobs (Images ?im ! nat idx) dig = Some ?l"
    using lo hi by simp
  have v: "sint (Precent ?l) = (sint receivedBytes * 100) div sint (Size layer)
            \<and> 0 \<le> sint (Precent ?l)
            \<and> (sint receivedBytes \<le> sint (Size layer) \<longrightarrow> sint (Precent ?l) \<le> 100)"
    if recv: "0 \<le> sint receivedBytes" and fits: "sint receivedBytes * 100 < 2 ^ 63"
  proof -
    have p: "sint (Precent ?l) = (sint receivedBytes * 100) div sint (Size layer)"
      using size recv fits by (simp add: div64_percent)
    have nn: "0 \<le> (sint receivedBytes * 100) div sint (Size layer)"
      using size recv by (simp add: pos_imp_zdiv_nonneg_iff)
    have le: "sint receivedBytes \<le> sint (Size layer) \<Longrightarrow>
              (sint receivedBytes * 100) div sint (Size layer) \<le> 100"
      using size by (rule percent_le_100)
    show ?thesis using p nn le by simp
  qed
  show ?thesis
    using ok b v by (intro exI [of _ ?im] exI [of _ ?l]) blast
qed

theorem UpdateImagePrecent_percent_witness:
  "blobToImages demo_job ''sha256:a'' = Some 0
   \<and> (0 :: int) \<le> 0
   \<and> 0 < int (length (Images demo_job))
   \<and> Blobs (Images demo_job ! nat 0) ''sha256:a'' = Some demo_blob
   \<and> 0 < sint (Size demo_blob)
   \<and> 0 \<le> sint (250 :: int64)
   \<and> sint (250 :: int64) * 100 < 2 ^ 63
   \<and> sint (250 :: int64) \<le> sint (Size demo_blob)
   \<and> (\<exists>im' layer'. UpdateImagePrecent ''sha256:a'' 250 demo_job = (Nil, im')
          \<and> Blobs (Images im' ! nat 0) ''sha256:a'' = Some layer'
          \<and> sint (Precent layer') = 25 \<and> sint (Precent layer') \<le> 100)"
proof -
  have idx: "blobToImages demo_job ''sha256:a'' = Some 0" by (simp add: demo_defs)
  have lo: "(0 :: int) \<le> 0" by simp
  have hi: "0 < int (length (Images demo_job))" by (simp add: demo_defs)
  have layer: "Blobs (Images demo_job ! nat 0) ''sha256:a'' = Some demo_blob"
    by (simp add: demo_defs)
  have size: "0 < sint (Size demo_blob)" by (simp add: demo_blob_def)
  have recv: "0 \<le> sint (250 :: int64)" by simp
  have fits: "sint (250 :: int64) * 100 < 2 ^ 63" by simp
  have le: "sint (250 :: int64) \<le> sint (Size demo_blob)" by (simp add: demo_blob_def)
  have q: "sint (250 :: int64) * 100 div sint (Size demo_blob) = 25" by (simp add: demo_blob_def)
  from UpdateImagePrecent_percent [OF idx lo hi layer size, of 250]
  obtain im' layer' where
    "UpdateImagePrecent ''sha256:a'' 250 demo_job = (Nil, im')"
    "Blobs (Images im' ! nat 0) ''sha256:a'' = Some layer'"
    "sint (Precent layer') = 25" "sint (Precent layer') \<le> 100"
    using recv fits le q by auto
  then show ?thesis using idx lo hi layer size recv fits le by blast
qed

text \<open>
  The bound of C5 as stated fails: a blob of declared size 1000 and an update with 2000
  received bytes (not negative) is stored as 200 percent.
\<close>

theorem UpdateImagePrecent_percent_over_100:
  "fst (UpdateImagePrecent ''sha256:a'' 2000 demo_job) = Nil
   \<and> blobToImages demo_job ''sha256:a'' = Some 0
   \<and> sint (Size (the (Blobs (Images demo_job ! 0) ''sha256:a''))) = 1000
   \<and> 0 \<le> sint (2000 :: int64)
   \<and> sint (Precent (the (Blobs (Images (snd (UpdateImagePrecent ''sha256:a'' 2000 demo_job)) ! 0)
                              ''sha256:a''))) = 200
   \<and> \<not> (200 :: int) \<le> 100"
  by (simp add: UpdateImagePrecent_demo div64_demo) (simp add: demo_defs)



section \<open>Properties of the registry\<close>

lemmas demo_controller_defs = demo_controller_def demo_objs_def NewImageMirror_def

subsection \<open>\<open>getim\<close>\<close>

lemma getim_hit:
  "map_of (mirrors c) (nm @ '':'' @ tag) = Some a \<Longrightarrow> getim c nm tag now = (a, c)"
  by (simp add: getim_def getim_rlocked_def)

lemma getim_miss:
  "map_of (mirrors c) (nm @ '':'' @ tag) = None \<Longrightarrow>
   getim c nm tag now =
     (fresh c, \<lparr>mirrors = AList.update (nm @ '':'' @ tag) (fresh c) (mirrors c),
               objs = (objs c)(fresh c := NewImageMirror nm tag now),
               fresh = Suc (fresh c)\<rparr>)"
  by (simp add: getim_def getim_rlocked_def getim_locked_def alloc_ImageMirror_def)

lemma map_of_None_length_update:
  "map_of al k = None \<Longrightarrow> length (AList.update k v al) = Suc (length al)"
  by (induction al) auto

text \<open>
  C6. \<open>getim\<close> returns the job the key is mapped to when there is one, and changes
  nothing. Otherwise it returns a job just created, in phase \<open>Pending\<close>, stored under
  the key in one new entry, every other entry and every other job being as before. Keys
  stay unique. A second \<open>getim\<close> for the key returns the same job. The look under the
  write lock returns the job that is mapped to the key then, whatever the caller has
  allocated.
\<close>

theorem getim_get_or_create:
  assumes "getim c nm tag now = (im, c')"
  shows "(\<forall>a. map_of (mirrors c) (nm @ '':'' @ tag) = Some a \<longrightarrow> im = a \<and> c' = c)
       \<and> (map_of (mirrors c) (nm @ '':'' @ tag) = None \<longrightarrow>
            im = fresh c
          \<and> objs c' im = NewImageMirror nm tag now
          \<and> Phase (objs c' im) = Pending
          \<and> (\<forall>a. a \<noteq> im \<longrightarrow> objs c' a = objs c a)
          \<and> map_of (mirrors c') = (map_of (mirrors c))(nm @ '':'' @ tag \<mapsto> im)
          \<and> length (mirrors c') = Suc (length (mirrors c)))
       \<and> (distinct (map fst (mirrors c)) \<longrightarrow> distinct (map fst (mirrors c')))
       \<and> (\<forall>now'. getim c' nm tag now' = (im, c'))
       \<and> (\<forall>c2 a new. map_of (mirrors c2) (nm @ '':'' @ tag) = Some a \<longrightarrow>
             getim_locked c2 (nm @ '':'' @ tag) new = (a, c2))"
proof (cases "map_of (mirrors c) (nm @ '':'' @ tag)")
  case None
  from getim_miss [OF None, of now] assms
  have im: "im = fresh c"
    and c': "c' = \<lparr>mirrors = AList.update (nm @ '':'' @ tag) (fresh c) (mirrors c),
               objs = (objs c)(fresh c := NewImageMirror nm tag now),
               fresh = Suc (fresh c)\<rparr>"
    by simp_all
  have again: "getim c' nm tag now' = (im, c')" for now'
    by (rule getim_hit) (simp add: c' im update_conv')
  show ?thesis
    using None again
    by (simp add: im c' update_conv' distinct_update map_of_None_length_update
          NewImageMirror_def getim_locked_def)
next
  case (Some a)
  from getim_hit [OF Some, of now] assms have e: "im = a" "c' = c" by simp_all
  have again: "getim c' nm tag now' = (im, c')" for now'
    using Some e by (simp add: getim_hit)
  show ?thesis using Some e again by (simp add: getim_locked_def)
qed

theorem getim_get_or_create_witness:
  "getim demo_controller ''library/db'' ''v2'' 9 = (1, demo_controller)
   \<and> map_of (mirrors demo_controller) (''library/db'' @ '':'' @ ''v2'') = Some 1
   \<and> getim demo_controller ''library/new'' ''v1'' 9 = (3, demo_controller_new)
   \<and> map_of (mirrors demo_controller) (''library/new'' @ '':'' @ ''v1'') = None
   \<and> distinct (map fst (mirrors demo_controller))
   \<and> Phase (objs demo_controller_new 3) = Pending
   \<and> length (mirrors demo_controller_new) = Suc (length (mirrors demo_controller))
   \<and> distinct (map fst (mirrors demo_controller_new))
   \<and> getim demo_controller_new ''library/new'' ''v1'' 10 = (3, demo_controller_new)"
proof -
  have hit: "map_of (mirrors demo_controller) (''library/db'' @ '':'' @ ''v2'') = Some 1"
    by (simp add: demo_controller_def)
  have g1: "getim demo_controller ''library/db'' ''v2'' 9 = (1, demo_controller)"
    using hit by (rule getim_hit)
  have miss: "map_of (mirrors demo_controller) (''library/new'' @ '':'' @ ''v1'') = None"
    by (simp add: demo_controller_def)
  have g2: "getim demo_controller ''library/new'' ''v1'' 9 = (3, demo_controller_new)"
    by (simp add: getim_miss [OF miss]) (simp add: demo_controller_def demo_controller_new_def)
  have d: "distinct (map fst (mirrors demo_controller))"
    by (simp add: demo_controller_def)
  from getim_get_or_create [OF g1] have "getim demo_controller ''library/db'' ''v2'' 9 = (1, demo_controller)"
    by simp
  moreover from getim_get_or_create [OF g2] miss d
  have "Phase (objs demo_controller_new 3) = Pending"
       "length (mirrors demo_controller_new) = Suc (length (mirrors demo_controller))"
       "distinct (map fst (mirrors demo_controller_new))"
       "getim demo_controller_new ''library/new'' ''v1'' 10 = (3, demo_controller_new)"
    by blast+
  ultimately show ?thesis using hit miss d g2 by simp
qed

subsection \<open>The eviction sweep\<close>

lemma fold_collect:
  "fold (\<lambda>(ref, im) acc. if P ref im then acc @ [ref] else acc) xs acc
     = acc @ map fst (filter (\<lambda>(ref, im). P ref im) xs)"
  by (induction xs arbitrary: acc) (auto split: prod.splits)

lemma map_of_fold_delete:
  "map_of (fold AList.delete ks xs) k = (if k \<in> set ks then None else map_of xs k)"
  by (induction ks arbitrary: xs) (auto simp: delete_conv)

lemma distinct_fold_delete:
  "distinct (map fst xs) \<Longrightarrow> distinct (map fst (fold AList.delete ks xs))"
  by (induction ks arbitrary: xs) (auto simp: distinct_delete)

lemma mem_filter_keys:
  assumes "distinct (map fst xs)"
  shows "k \<in> set (map fst (filter (\<lambda>(ref, im). P ref im) xs))
           \<longleftrightarrow> (\<exists>a. map_of xs k = Some a \<and> P k a)"
  using assms by (induction xs) (auto simp: rev_image_eqI)

text \<open>
  C3. After a tick at instant \<open>now\<close>, a key is mapped as before, except that a key
  mapped to a job in phase \<open>Mirrored\<close> created before \<open>now\<close> minus 7 days
  (604800000000000 nanoseconds) is no longer mapped. So a job is removed if and only if
  it is \<open>Mirrored\<close> and older than the cutoff; every other entry, and every job, is as
  it was. Keys of the registry are unique, as they are in a Go map.
\<close>

theorem gc_tick_evicts_iff:
  assumes "distinct (map fst (mirrors c))"
  shows "map_of (mirrors (gc_tick now c)) ref =
           (case map_of (mirrors c) ref of
              None \<Rightarrow> None
            | Some im \<Rightarrow>
                if Phase (objs c im) = Mirrored \<and> CreateTime (objs c im) < now - 604800000000000
                then None else Some im)
       \<and> objs (gc_tick now c) = objs c
       \<and> fresh (gc_tick now c) = fresh c
       \<and> distinct (map fst (mirrors (gc_tick now c)))"
proof -
  let ?P = "\<lambda>ref im. Phase (objs c im) = Mirrored
                \<and> After (now + (- 7 * 24 * Hour)) (CreateTime (objs c im))"
  have m: "mirrors (gc_tick now c)
             = fold AList.delete (map fst (filter (\<lambda>(ref, im). ?P ref im) (mirrors c))) (mirrors c)"
    by (simp add: gc_tick_def fold_collect)
  have t: "?P ref im \<longleftrightarrow> Phase (objs c im) = Mirrored \<and> CreateTime (objs c im) < now - 604800000000000"
    for ref im
    by (simp add: After_def Hour_def)
  have "map_of (mirrors (gc_tick now c)) ref =
           (case map_of (mirrors c) ref of
              None \<Rightarrow> None
            | Some im \<Rightarrow> if ?P ref im then None else Some im)"
    unfolding m map_of_fold_delete mem_filter_keys [OF assms, of _ ?P]
    by (auto split: option.splits)
  then have "map_of (mirrors (gc_tick now c)) ref =
           (case map_of (mirrors c) ref of
              None \<Rightarrow> None
            | Some im \<Rightarrow>
                if Phase (objs c im) = Mirrored \<and> CreateTime (objs c im) < now - 604800000000000
                then None else Some im)"
    by (simp only: t)
  moreover have "objs (gc_tick now c) = objs c" "fresh (gc_tick now c) = fresh c"
    by (simp_all add: gc_tick_def Let_def)
  moreover have "distinct (map fst (mirrors (gc_tick now c)))"
    unfolding m using assms by (rule distinct_fold_delete)
  ultimately show ?thesis by simp
qed

theorem gc_tick_evicts_iff_witness:
  "distinct (map fst (mirrors demo_controller))
   \<and> map_of (mirrors (gc_tick 604800000000003 demo_controller)) ''library/app:v1'' = None
   \<and> map_of (mirrors (gc_tick 604800000000003 demo_controller)) ''library/db:v2'' = Some 1
   \<and> map_of (mirrors (gc_tick 604800000000003 demo_controller)) ''library/web:v3'' = Some 2
   \<and> objs (gc_tick 604800000000003 demo_controller) = objs demo_controller"
proof -
  have d: "distinct (map fst (mirrors demo_controller))"
    by (simp add: demo_controller_def)
  have m: "map_of (mirrors demo_controller) ''library/app:v1'' = Some 0"
          "map_of (mirrors demo_controller) ''library/db:v2'' = Some 1"
          "map_of (mirrors demo_controller) ''library/web:v3'' = Some 2"
    by (simp_all add: demo_controller_def)
  have j: "Phase (objs demo_controller 0) = Mirrored" "CreateTime (objs demo_controller 0) = 0"
          "Phase (objs demo_controller (Suc 0)) \<noteq> Mirrored"
          "CreateTime (objs demo_controller 2) = 5"
    by (simp_all add: demo_controller_defs Phase_defs)
  from gc_tick_evicts_iff [OF d, of 604800000000003 "''library/app:v1''"]
       gc_tick_evicts_iff [OF d, of 604800000000003 "''library/db:v2''"]
       gc_tick_evicts_iff [OF d, of 604800000000003 "''library/web:v3''"]
  show ?thesis using d by (simp add: m j)
qed

lemma gc_InLoop: "\<exists>c'. gc evs c = InLoop c'"
  by (induction evs c rule: gc.induct) simp_all

lemma gc_skip_Done: "gc (pre @ CtxDone # post) c = gc (pre @ post) c"
  by (induction pre c rule: gc.induct) simp_all

text \<open>
  C4. The loop of \<open>gc\<close> does not end when \<open>ctx.Done()\<close> fires: a turn that takes the
  \<open>ctx.Done()\<close> branch changes nothing, the turns after it run as if it had not been
  there (ticks still sweep), and \<open>gc\<close> has not returned after any sequence of turns.
\<close>

theorem gc_loops_on_after_Done:
  "gc (pre @ CtxDone # post) c = gc (pre @ post) c
   \<and> (\<forall>c'. gc (pre @ CtxDone # post) c \<noteq> GcReturned c')
   \<and> (\<exists>c'. gc [CtxDone, TickerC 604800000000003] demo_controller = InLoop c'
           \<and> map_of (mirrors demo_controller) ''library/app:v1'' = Some 0
           \<and> map_of (mirrors c') ''library/app:v1'' = None)"
proof -
  have "gc [CtxDone, TickerC 604800000000003] demo_controller
          = InLoop (gc_tick 604800000000003 demo_controller)"
    by simp
  moreover have "map_of (mirrors (gc_tick 604800000000003 demo_controller)) ''library/app:v1'' = None"
    by (simp add: gc_tick_def demo_controller_defs Phase_defs After_def Hour_def)
  moreover have "map_of (mirrors demo_controller) ''library/app:v1'' = Some 0"
    by (simp add: demo_controller_def)
  ultimately show ?thesis
    using gc_InLoop [of "pre @ CtxDone # post" c] by (auto simp: gc_skip_Done)
qed

subsection \<open>The claim \<open>IsPending\<close>\<close>

lemma IsPending_alone:
  "interleave [0, 0, 0, 0] ([AtLock], False, im)
     = ([Returned (fst (IsPending im))], False, snd (IsPending im))"
  by (simp add: IsPending_def Let_def)

text \<open>
  C1. Two callers share a \<open>Pending\<close> job. The first locks, unlocks and reads the phase;
  the second does the same before the first writes; then both write. Both calls of
  \<open>IsPending\<close> return \<open>true\<close>, so \<open>go c.mirrorimages(im)\<close> runs twice for the one job. The
  mutex is free at the read and at the write of both callers.
\<close>

theorem IsPending_two_callers_both_true:
  "interleave [0, 0, 0, 1, 1, 1, 0, 1]
       ([AtLock, AtLock], False, NewImageMirror ''library/app'' ''v1'' 0)
     = ([Returned True, Returned True], False,
        (NewImageMirror ''library/app'' ''v1'' 0)\<lparr>Phase := Mirroring\<rparr>)"
  by (simp add: NewImageMirror_def Phase_defs)

section \<open>Properties of the transfer run\<close>

lemmas demo_env_defs = demo_env_def demo_desc_def demo_md_def demo_list_def demo_manifest_def
  demo_layer_def demo_bad_def claimed_job_def NewImageMirror_def

lemmas run_defs = call_def status_def stop_def after_sync_def

subsection \<open>\<open>MirrorImage\<close> and its fetch tasks\<close>

text \<open>
  C7. \<open>MirrorImage\<close> on a manifest that lists a layer absent from the local store and
  then a reference of a media type that is not recognized: the fetch task for the layer
  is started, and the function returns the error from inside the loop. \<open>wg.Wait()\<close> is
  not among its events, and the task is still not waited for when it returns.
\<close>

theorem MirrorImage_returns_before_Wait:
  "sync_err (MirrorImage (demo_env mt lm lr) (demo_desc mt) demo_manifest claimed_job)
      = Some ''unknown mediatype application/x-unknown''
   \<and> sync_trace (MirrorImage (demo_env mt lm lr) (demo_desc mt) demo_manifest claimed_job)
      = [CallBlobStat ''sha256:a'', GoBlobGet ''sha256:a'']
   \<and> sync_unjoined (MirrorImage (demo_env mt lm lr) (demo_desc mt) demo_manifest claimed_job)
      = [''sha256:a'']"
  by (simp add: MirrorImage_def demo_env_defs recognized_def Let_def)

subsection \<open>Failure paths of \<open>mirrorimages\<close>\<close>

text \<open>
  C8. When \<open>c.embedded.Repository\<close> fails and hands back a nil handle, the run sets the
  status \<open>Unknown\<close> and goes on to call \<open>Manifests\<close> on the handle, which ends it by a
  panic. And when the tag resolves to a single manifest and \<open>MirrorImage\<close> fails, the
  run sets \<open>Unknown\<close>, goes on to \<open>UpdateStatue(Success, "")\<close> and ends as \<open>Mirrored\<close> with
  code \<open>Success\<close>.
\<close>

theorem mirrorimages_goes_on_after_failure:
  "mirrorimages (demo_env mt lm (False, Some ''boom'')) claimed_job
     = \<lparr>job = claimed_job\<lparr>Code := Unknown, Message := ''get local repository error: boom''\<rparr>,
        trace = [CallNewRepository, CallRepoManifests, CallEmbeddedRepository,
                 Status Unknown ''get local repository error: boom'', CallLocalManifests],
        unjoined = [],
        ending = Panic ''nil pointer dereference''\<rparr>
   \<and> trace (mirrorimages (demo_env ''application/vnd.docker.distribution.manifest.v2+json''
                   demo_manifest (True, None)) claimed_job)
     = [CallNewRepository, CallRepoManifests, CallEmbeddedRepository, CallLocalManifests,
        CallTagsGet ''v1'', CallLocalManifestGet ''sha256:top'',
        CallBlobStat ''sha256:a'', GoBlobGet ''sha256:a'',
        Status Unknown ''mirror image blobs error: unknown mediatype application/x-unknown'',
        Status Success []]
   \<and> Code (job (mirrorimages (demo_env ''application/vnd.docker.distribution.manifest.v2+json''
                   demo_manifest (True, None)) claimed_job)) = Success
   \<and> Phase (job (mirrorimages (demo_env ''application/vnd.docker.distribution.manifest.v2+json''
                   demo_manifest (True, None)) claimed_job)) = Mirrored"
proof (intro conjI)
  show "mirrorimages (demo_env mt lm (False, Some ''boom'')) claimed_job
     = \<lparr>job = claimed_job\<lparr>Code := Unknown, Message := ''get local repository error: boom''\<rparr>,
        trace = [CallNewRepository, CallRepoManifests, CallEmbeddedRepository,
                 Status Unknown ''get local repository error: boom'', CallLocalManifests],
        unjoined = [],
        ending = Panic ''nil pointer dereference''\<rparr>"
    by (simp add: mirrorimages_def acquire_def demo_env_def run_defs UpdateStatue_def Let_def)
  let ?r = "mirrorimages (demo_env ''application/vnd.docker.distribution.manifest.v2+json''
                   demo_manifest (True, None)) claimed_job"
  have a: "acquire (demo_env ''application/vnd.docker.distribution.manifest.v2+json''
                   demo_manifest (True, None)) claimed_job
             = (\<lparr>job = claimed_job,
                 trace = [CallNewRepository, CallRepoManifests, CallEmbeddedRepository,
                          CallLocalManifests, CallTagsGet ''v1'', CallLocalManifestGet ''sha256:top''],
                 unjoined = [], ending = Running\<rparr>,
                Some (demo_desc ''application/vnd.docker.distribution.manifest.v2+json'', demo_manifest))"
    by (simp add: acquire_def demo_env_def demo_desc_def claimed_job_def NewImageMirror_def
          run_defs Let_def)
  have s: "sync_err (MirrorImage (demo_env ''application/vnd.docker.distribution.manifest.v2+json''
                       demo_manifest (True, None))
                     (demo_desc ''application/vnd.docker.distribution.manifest.v2+json'')
                     demo_manifest claimed_job)
             = Some ''unknown mediatype application/x-unknown''"
          "sync_trace (MirrorImage (demo_env ''application/vnd.docker.distribution.manifest.v2+json''
                       demo_manifest (True, None))
                     (demo_desc ''application/vnd.docker.distribution.manifest.v2+json'')
                     demo_manifest claimed_job)
             = [CallBlobStat ''sha256:a'', GoBlobGet ''sha256:a'']"
    by (simp_all add: MirrorImage_def demo_env_defs recognized_def Let_def)
  have m: "MediaType (demo_desc ''application/vnd.docker.distribution.manifest.v2+json'')
             = ''application/vnd.docker.distribution.manifest.v2+json''"
    by (simp add: demo_desc_def)
  show "trace ?r
     = [CallNewRepository, CallRepoManifests, CallEmbeddedRepository, CallLocalManifests,
        CallTagsGet ''v1'', CallLocalManifestGet ''sha256:top'',
        CallBlobStat ''sha256:a'', GoBlobGet ''sha256:a'',
        Status Unknown ''mirror image blobs error: unknown mediatype application/x-unknown'',
        Status Success []]"
    by (simp add: mirrorimages_def a m s run_defs Let_def)
  show "Code (job ?r) = Success"
    by (simp add: mirrorimages_def a m s run_defs Let_def UpdateStatue_def Code_defs)
  show "Phase (job ?r) = Mirrored"
    by (simp add: mirrorimages_def a m s run_defs Let_def UpdateStatue_def Code_defs)
qed

subsection \<open>A reference of a media type that is not recognized\<close>

lemma sync_refs_bad:
  assumes "\<forall>d\<in>set pre. recognized (MediaType d)" "\<not> recognized (MediaType bad)"
  shows "\<exists>s'. sync_refs env idx (pre @ bad # post) s
                 = (Some (''unknown mediatype '' @ MediaType bad), s')
            \<and> fo_trace s' = fo_trace s @ concat (map (ref_events env) pre)
            \<and> fo_launched s' = fo_launched s
                 @ filter (\<lambda>dg. localrepo_Blobs_Stat env dg \<noteq> None) (map Desc_Digest pre)"
  using assms
proof (induction pre arbitrary: s)
  case Nil
  then show ?case by simp
next
  case (Cons d pre)
  then have r: "recognized (MediaType d)" and p: "\<forall>d\<in>set pre. recognized (MediaType d)"
    by simp_all
  show ?case
  proof (cases "localrepo_Blobs_Stat env (Desc_Digest d)")
    case None
    let ?s1 = "s\<lparr>fo_img := (fo_img s)\<lparr>Blobs := (Blobs (fo_img s))
                     (Desc_Digest d \<mapsto> \<lparr>Precent = 100, Size = Desc_Size d, Error = None, Speed = []\<rparr>)\<rparr>,
                  fo_trace := fo_trace s @ [CallBlobStat (Desc_Digest d)]\<rparr>"
    have st: "sync_refs env idx ((d # pre) @ bad # post) s = sync_refs env idx (pre @ bad # post) ?s1"
      using r None by (simp add: Let_def)
    from Cons.IH [OF p Cons.prems(2), of ?s1] show ?thesis
      unfolding st using None by (auto simp: ref_events_def)
  next
    case (Some err)
    let ?b = "\<lparr>Precent = 100, Size = Desc_Size d, Error = None, Speed = []\<rparr>"
    let ?s1 = "s\<lparr>fo_img := (fo_img s)\<lparr>Blobs := (Blobs (fo_img s))(Desc_Digest d \<mapsto> ?b)\<rparr>,
                  fo_trace := fo_trace s @ [CallBlobStat (Desc_Digest d)]\<rparr>"
    let ?s2 = "?s1\<lparr>fo_blobToImages := (fo_blobToImages ?s1)(Desc_Digest d \<mapsto> idx),
                    fo_img := (fo_img ?s1)
                      \<lparr>Blobs := (Blobs (fo_img ?s1))(Desc_Digest d \<mapsto> ?b\<lparr>Precent := 0\<rparr>)\<rparr>,
                    fo_launched := fo_launched ?s1 @ [Desc_Digest d],
                    fo_trace := fo_trace ?s1 @ [GoBlobGet (Desc_Digest d)]\<rparr>"
    have st: "sync_refs env idx ((d # pre) @ bad # post) s = sync_refs env idx (pre @ bad # post) ?s2"
      using r Some by (simp add: Let_def)
    from Cons.IH [OF p Cons.prems(2), of ?s2] show ?thesis
      unfolding st using Some by (auto simp: ref_events_def)
  qed
qed

lemma MirrorImage_bad:
  assumes "References m = pre @ bad # post"
      and "\<forall>d\<in>set pre. recognized (MediaType d)" "\<not> recognized (MediaType bad)"
  shows "sync_err (MirrorImage env d m im) = Some (''unknown mediatype '' @ MediaType bad)"
    and "sync_trace (MirrorImage env d m im) = concat (map (ref_events env) pre)"
    and "sync_unjoined (MirrorImage env d m im)
           = filter (\<lambda>dg. localrepo_Blobs_Stat env dg \<noteq> None) (map Desc_Digest pre)"
    and "Phase (sync_job (MirrorImage env d m im)) = Phase im"
proof -
  let ?img = "\<lparr>Architecture = (case Desc_Platform d of None \<Rightarrow> [] | Some p \<Rightarrow> Platform_Architecture p),
                 OS = (case Desc_Platform d of None \<Rightarrow> [] | Some p \<Rightarrow> Platform_OS p),
                 Digest = Desc_Digest d, Blobs = Map.empty\<rparr>"
  let ?s = "\<lparr>fo_img = ?img, fo_blobToImages = blobToImages im, fo_launched = [], fo_trace = []\<rparr>"
  from sync_refs_bad [OF assms(2,3), of env "int (length (Images im @ [?img])) - 1" post ?s]
  obtain s' where
    r: "sync_refs env (int (length (Images im @ [?img])) - 1) (pre @ bad # post) ?s
          = (Some (''unknown mediatype '' @ MediaType bad), s')"
    and t: "fo_trace s' = concat (map (ref_events env) pre)"
    and l: "fo_launched s' = filter (\<lambda>dg. localrepo_Blobs_Stat env dg \<noteq> None) (map Desc_Digest pre)"
    by auto
  have e: "MirrorImage env d m im =
             \<lparr>sync_err = Some (''unknown mediatype '' @ MediaType bad),
              sync_job = im\<lparr>Images := Images im @ [fo_img s'], blobToImages := fo_blobToImages s'\<rparr>,
              sync_trace = fo_trace s', sync_unjoined = fo_launched s'\<rparr>"
    unfolding MirrorImage_def Let_def assms(1) using r by simp
  show "sync_err (MirrorImage env d m im) = Some (''unknown mediatype '' @ MediaType bad)"
    and "sync_trace (MirrorImage env d m im) = concat (map (ref_events env) pre)"
    and "sync_unjoined (MirrorImage env d m im)
           = filter (\<lambda>dg. localrepo_Blobs_Stat env dg \<noteq> None) (map Desc_Digest pre)"
    and "Phase (sync_job (MirrorImage env d m im)) = Phase im"
    by (simp_all add: e t l)
qed

lemma ending_stop: "ending (stop code message r) = Return"
  by (simp add: stop_def)

lemma UpdateStatue_message:
  "message \<noteq> [] \<Longrightarrow> UpdateStatue code message im = im\<lparr>Code := code, Message := message\<rparr>"
  by (simp add: UpdateStatue_def)

lemma mirror_manifests_append:
  "ending (mirror_manifests env xs r) = Running \<Longrightarrow>
   mirror_manifests env (xs @ ys) r = mirror_manifests env ys (mirror_manifests env xs r)"
proof (induction xs arbitrary: r)
  case Nil
  then show ?case by simp
next
  case (Cons x xs)
  show ?case
  proof (cases "MediaType (MD_Descriptor x) = ''application/vnd.oci.image.manifest.v1+json''")
    case False
    with Cons.prems show ?thesis by (simp add: ending_stop Let_def)
  next
    case True
    show ?thesis
    proof (cases "manifestService_Get env (Desc_Digest (MD_Descriptor x))")
      case (Inl err)
      with True Cons.prems show ?thesis by (simp add: ending_stop Let_def)
    next
      case (Inr m)
      let ?d = "(MD_Descriptor x)
                \<lparr>Desc_Platform := Some \<lparr>Platform_Architecture = Platform_Architecture (MD_Platform x),
                                        Platform_OS = Platform_OS (MD_Platform x)\<rparr>\<rparr>"
      let ?s = "MirrorImage env ?d m (job r)"
      let ?r1 = "after_sync ?s (call (CallManifestGet (Desc_Digest (MD_Descriptor x))) r)"
      show ?thesis
      proof (cases "sync_err ?s")
        case (Some err)
        with True Inr Cons.prems show ?thesis by (simp add: ending_stop Let_def)
      next
        case None
        have st: "mirror_manifests env (x # zs) r = mirror_manifests env zs ?r1" for zs
          using True Inr None by (simp add: Let_def)
        from Cons.prems have "ending (mirror_manifests env xs ?r1) = Running"
          by (simp only: st)
        from Cons.IH [OF this] show ?thesis
          by (simp only: st append_Cons)
      qed
    qed
  qed
qed

lemma mirror_manifests_bad:
  assumes child: "MediaType (MD_Descriptor md) = ''application/vnd.oci.image.manifest.v1+json''"
      and got: "manifestService_Get env (Desc_Digest (MD_Descriptor md)) = Inr m"
      and refs: "References m = pre @ bad # post"
      and pre: "\<forall>d\<in>set pre. recognized (MediaType d)"
      and bad: "\<not> recognized (MediaType bad)"
  shows "ending (mirror_manifests env (md # rest) r) = Return"
    and "Code (job (mirror_manifests env (md # rest) r)) = Unknown"
    and "Message (job (mirror_manifests env (md # rest) r))
           = ''mirror image blobs error: unknown mediatype '' @ MediaType bad"
    and "Phase (job (mirror_manifests env (md # rest) r)) = Phase (job r)"
    and "trace (mirror_manifests env (md # rest) r)
           = trace r @ [CallManifestGet (Desc_Digest (MD_Descriptor md))]
               @ concat (map (ref_events env) pre)
               @ [Status Unknown (''mirror image blobs error: unknown mediatype '' @ MediaType bad)]"
    and "unjoined (mirror_manifests env (md # rest) r)
           = unjoined r @ filter (\<lambda>dg. localrepo_Blobs_Stat env dg \<noteq> None) (map Desc_Digest pre)"
proof -
  let ?d = "(MD_Descriptor md)
                \<lparr>Desc_Platform := Some \<lparr>Platform_Architecture = Platform_Architecture (MD_Platform md),
                                        Platform_OS = Platform_OS (MD_Platform md)\<rparr>\<rparr>"
  let ?s = "MirrorImage env ?d m (job r)"
  let ?msg = "''mirror image blobs error: unknown mediatype '' @ MediaType bad"
  note mi = MirrorImage_bad [OF refs pre bad, of env ?d "job r"]
  have st: "mirror_manifests env (md # rest) r
              = stop Unknown ?msg (after_sync ?s (call (CallManifestGet (Desc_Digest (MD_Descriptor md))) r))"
    using child got mi(1) by (simp add: Let_def)
  note us = UpdateStatue_message
  show "ending (mirror_manifests env (md # rest) r) = Return"
    unfolding st by (rule ending_stop)
  show "Code (job (mirror_manifests env (md # rest) r)) = Unknown"
    unfolding st by (simp add: run_defs us)
  show "Message (job (mirror_manifests env (md # rest) r)) = ?msg"
    unfolding st by (simp add: run_defs us)
  show "Phase (job (mirror_manifests env (md # rest) r)) = Phase (job r)"
    unfolding st by (simp add: run_defs us mi(4))
  show "trace (mirror_manifests env (md # rest) r)
           = trace r @ [CallManifestGet (Desc_Digest (MD_Descriptor md))]
               @ concat (map (ref_events env) pre) @ [Status Unknown ?msg]"
    unfolding st by (simp add: run_defs mi(2))
  show "unjoined (mirror_manifests env (md # rest) r)
           = unjoined r @ filter (\<lambda>dg. localrepo_Blobs_Stat env dg \<noteq> None) (map Desc_Digest pre)"
    unfolding st by (simp add: run_defs mi(3))
qed

text \<open>
  C2, as the code has it. The tag resolves to an image index, the images before \<open>md\<close>
  have synced without a failure, and the manifest of image \<open>md\<close> lists recognized
  references \<open>pre\<close>, then a reference \<open>bad\<close> of a media type that is not recognized, then
  \<open>post\<close>. The run returns with code \<open>Unknown\<close> (not \<open>Success\<close>), the message
  \<open>mirror image blobs error: unknown mediatype\<close> and the media type, and the phase as it
  was. After the fetch of the image's manifest, its events are those of the references
  in \<open>pre\<close> and the status update: nothing is looked up or fetched for \<open>bad\<close> or for \<open>post\<close>,
  and no later image is visited.
\<close>

theorem mirrorimages_unknown_blob_mediatype:
  assumes acq: "acquire env im = (r0, Some (desc, DeserializedManifestList refs (done @ md # rest)))"
      and index: "MediaType desc = ''application/vnd.oci.image.index.v1+json''"
      and earlier: "ending (mirror_manifests env done r0) = Running"
      and child: "MediaType (MD_Descriptor md) = ''application/vnd.oci.image.manifest.v1+json''"
      and got: "manifestService_Get env (Desc_Digest (MD_Descriptor md)) = Inr m"
      and refs: "References m = pre @ bad # post"
      and pre: "\<forall>d\<in>set pre. recognized (MediaType d)"
      and bad: "\<not> recognized (MediaType bad)"
  shows "ending (mirrorimages env im) = Return
       \<and> Code (job (mirrorimages env im)) = Unknown
       \<and> Code (job (mirrorimages env im)) \<noteq> Success
       \<and> Message (job (mirrorimages env im))
           = ''mirror image blobs error: unknown mediatype '' @ MediaType bad
       \<and> Phase (job (mirrorimages env im)) = Phase (job (mirror_manifests env done r0))
       \<and> trace (mirrorimages env im)
           = trace (mirror_manifests env done r0)
               @ [CallManifestGet (Desc_Digest (MD_Descriptor md))]
               @ concat (map (ref_events env) pre)
               @ [Status Unknown (''mirror image blobs error: unknown mediatype '' @ MediaType bad)]"
proof -
  let ?r1 = "mirror_manifests env done r0"
  let ?r = "mirror_manifests env (md # rest) ?r1"
  note b = mirror_manifests_bad [OF child got refs pre bad, of rest ?r1]
  have ap: "mirror_manifests env (done @ md # rest) r0 = ?r"
    using earlier by (rule mirror_manifests_append)
  have nv: "MediaType desc \<noteq> ''application/vnd.docker.distribution.manifest.v2+json''"
    by (simp add: index)
  have "mirrorimages env im = ?r"
    unfolding mirrorimages_def acq using nv index b(1)
    by (simp add: ap Let_def del: mirror_manifests.simps)
  then show ?thesis using b by (simp add: Code_defs)
qed

theorem mirrorimages_unknown_blob_mediatype_witness:
  "acquire (demo_env ''application/vnd.oci.image.index.v1+json'' demo_list (True, None)) claimed_job
     = (fst (acquire (demo_env ''application/vnd.oci.image.index.v1+json'' demo_list (True, None))
               claimed_job),
        Some (demo_desc ''application/vnd.oci.image.index.v1+json'',
              DeserializedManifestList [MD_Descriptor demo_md] ([] @ demo_md # [])))
   \<and> MediaType (MD_Descriptor demo_md) = ''application/vnd.oci.image.manifest.v1+json''
   \<and> References demo_manifest = [demo_layer ''sha256:a''] @ demo_bad # [demo_layer ''sha256:b'']
   \<and> recognized (MediaType (demo_layer ''sha256:a''))
   \<and> \<not> recognized (MediaType demo_bad)
   \<and> ending (mirrorimages (demo_env ''application/vnd.oci.image.index.v1+json'' demo_list (True, None))
               claimed_job) = Return
   \<and> Code (job (mirrorimages (demo_env ''application/vnd.oci.image.index.v1+json'' demo_list (True, None))
               claimed_job)) = 105
   \<and> Message (job (mirrorimages (demo_env ''application/vnd.oci.image.index.v1+json'' demo_list (True, None))
               claimed_job))
       = ''mirror image blobs error: unknown mediatype application/x-unknown''
   \<and> Phase (job (mirrorimages (demo_env ''application/vnd.oci.image.index.v1+json'' demo_list (True, None))
               claimed_job)) = Mirroring"
proof -
  let ?env = "demo_env ''application/vnd.oci.image.index.v1+json'' demo_list (True, None)"
  let ?r0 = "\<lparr>job = claimed_job,
              trace = [CallNewRepository, CallRepoManifests, CallEmbeddedRepository,
                       CallLocalManifests, CallTagsGet ''v1'', CallLocalManifestGet ''sha256:top''],
              unjoined = [], ending = Running\<rparr>"
  have a: "acquire ?env claimed_job
             = (?r0, Some (demo_desc ''application/vnd.oci.image.index.v1+json'',
                           DeserializedManifestList [MD_Descriptor demo_md] ([] @ demo_md # [])))"
    by (simp add: acquire_def demo_env_def demo_desc_def demo_list_def claimed_job_def
          NewImageMirror_def run_defs Let_def)
  have index: "MediaType (demo_desc ''application/vnd.oci.image.index.v1+json'')
                 = ''application/vnd.oci.image.index.v1+json''"
    by (simp add: demo_desc_def)
  have earlier: "ending (mirror_manifests ?env [] ?r0) = Running" by simp
  have child: "MediaType (MD_Descriptor demo_md) = ''application/vnd.oci.image.manifest.v1+json''"
    by (simp add: demo_md_def)
  have got: "manifestService_Get ?env (Desc_Digest (MD_Descriptor demo_md)) = Inr demo_manifest"
    by (simp add: demo_env_def)
  have refs: "References demo_manifest = [demo_layer ''sha256:a''] @ demo_bad # [demo_layer ''sha256:b'']"
    by (simp add: demo_manifest_def)
  have pre: "\<forall>d\<in>set [demo_layer ''sha256:a'']. recognized (MediaType d)"
    by (simp add: demo_layer_def recognized_def)
  have bad: "\<not> recognized (MediaType demo_bad)"
    by (simp add: demo_bad_def recognized_def)
  have mt: "MediaType demo_bad = ''application/x-unknown''" by (simp add: demo_bad_def)
  have ph: "Phase claimed_job = Mirroring"
    by (simp add: claimed_job_def)
  have f: "fst (acquire ?env claimed_job) = ?r0" by (simp add: a)
  from mirrorimages_unknown_blob_mediatype [OF a index earlier child got refs pre bad]
  have "ending (mirrorimages ?env claimed_job) = Return"
       "Code (job (mirrorimages ?env claimed_job)) = 105"
       "Message (job (mirrorimages ?env claimed_job))
          = ''mirror image blobs error: unknown mediatype application/x-unknown''"
       "Phase (job (mirrorimages ?env claimed_job)) = Mirroring"
    by (simp_all add: mt ph Unknown_def)
  then show ?thesis using a f child refs pre bad by simp
qed

text \<open>
  C2 as stated fails on that run: the job ends with code \<open>Unknown\<close> (105), which is not
  \<open>UnknownMediaType\<close> (106).
\<close>

theorem mirrorimages_unknown_blob_not_UnknownMediaType:
  "References demo_manifest = [demo_layer ''sha256:a'', demo_bad, demo_layer ''sha256:b'']
   \<and> \<not> recognized (MediaType demo_bad)
   \<and> ending (mirrorimages (demo_env ''application/vnd.oci.image.index.v1+json'' demo_list (True, None))
               claimed_job) = Return
   \<and> Code (job (mirrorimages (demo_env ''application/vnd.oci.image.index.v1+json'' demo_list (True, None))
               claimed_job)) = Unknown
   \<and> Code (job (mirrorimages (demo_env ''application/vnd.oci.image.index.v1+json'' demo_list (True, None))
               claimed_job)) \<noteq> UnknownMediaType"
proof -
  let ?env = "demo_env ''application/vnd.oci.image.index.v1+json'' demo_list (True, None)"
  let ?r0 = "\<lparr>job = claimed_job,
              trace = [CallNewRepository, CallRepoManifests, CallEmbeddedRepository,
                       CallLocalManifests, CallTagsGet ''v1'', CallLocalManifestGet ''sha256:top''],
              unjoined = [], ending = Running\<rparr>"
  have a: "acquire ?env claimed_job
             = (?r0, Some (demo_desc ''application/vnd.oci.image.index.v1+json'',
                           DeserializedManifestList [MD_Descriptor demo_md] [demo_md]))"
    by (simp add: acquire_def demo_env_def demo_desc_def demo_list_def claimed_job_def
          NewImageMirror_def run_defs Let_def)
  have m: "MediaType (demo_desc ''application/vnd.oci.image.index.v1+json'')
             = ''application/vnd.oci.image.index.v1+json''"
    by (simp add: demo_desc_def)
  have child: "MediaType (MD_Descriptor demo_md) = ''application/vnd.oci.image.manifest.v1+json''"
    by (simp add: demo_md_def)
  have got: "manifestService_Get ?env (Desc_Digest (MD_Descriptor demo_md)) = Inr demo_manifest"
    by (simp add: demo_env_def)
  have refs: "References demo_manifest = [demo_layer ''sha256:a''] @ demo_bad # [demo_layer ''sha256:b'']"
    by (simp add: demo_manifest_def)
  have pre: "\<forall>d\<in>set [demo_layer ''sha256:a'']. recognized (MediaType d)"
    by (simp add: demo_layer_def recognized_def)
  have bad: "\<not> recognized (MediaType demo_bad)"
    by (simp add: demo_bad_def recognized_def)
  note b = mirror_manifests_bad [OF child got refs pre bad, of "[]" ?r0]
  have r: "mirrorimages ?env claimed_job = mirror_manifests ?env [demo_md] ?r0"
    unfolding mirrorimages_def a using b(1)
    by (simp add: m Let_def del: mirror_manifests.simps)
  have "Code (job (mirrorimages ?env claimed_job)) = Unknown"
       "ending (mirrorimages ?env claimed_job) = Return"
    unfolding r by (rule b)+
  then show ?thesis using bad
    by (simp add: demo_manifest_def Code_defs)
qed

end
